theory Spec2Isabelle
  imports Complex_Main "HOL-Library.AList"
begin

section \<open>The composite AIA/HMI figure script (05-plotting/aia\_all.py)\<close>

text \<open>
  The script is one linear pass: load the image maps, key them by wavelength, crop them,
  allocate nine plot regions, draw one cropped map into each region, label the regions
  and mark the crop box on the main image. The embedding follows the script statement by
  statement from the map construction on (the remote query and download produce the files
  and nothing else the later statements read).

  Numbers. The script mixes Python ints and floats; a dictionary treats \<open>6173\<close> and
  \<open>6173.0\<close> as one key, so wavelengths are compared by value and are modelled as
  rationals. The figure coordinates are the floats \<open>0.25\<close>, \<open>1. - 0.25\<close>,
  \<open>1.0 - 2 * 0.25\<close> and \<open>i * 0.25\<close> for \<open>i < 4\<close>: all of them dyadic fractions that
  binary floating point holds and computes exactly, so rational arithmetic gives the very
  same values.

  Language level. The script is written against the SunPy 0.5 interface (\<open>submap\<close> on
  bare numbers, \<open>xrange + yrange\<close> as list concatenation, \<open>mpl_color_normalizer\<close>,
  wavelengths as plain numbers), which exists for Python 2 only. There the builtin
  \<open>map\<close> applies its function to every element at once and returns the list of results;
  the model of line 95 is therefore an eager loop. (Under Python 3 the same call would
  only build an iterator that nothing consumes.)
\<close>

subsection \<open>Errors, dictionaries\<close>

datatype error = KeyError rat

text \<open>
  A dictionary is an association list with distinct keys in insertion order; storing under
  a key that is present replaces the value in place (\<open>AList.update\<close>), looking a missing
  key up raises \<open>KeyError\<close>.
\<close>

type_synonym ('k, 'v) dict = "('k \<times> 'v) list"

definition getitem :: "(rat, 'v) dict \<Rightarrow> rat \<Rightarrow> error + 'v" where
  "getitem d k = (case map_of d k of None \<Rightarrow> Inl (KeyError k) | Some v \<Rightarrow> Inr v)"

text \<open>A dict comprehension \<open>{k: v for ...}\<close> stores the pairs one after the other.\<close>

definition dict_of :: "('k \<times> 'v) list \<Rightarrow> ('k, 'v) dict" where
  "dict_of kvs = foldl (\<lambda>d (k, v). AList.update k v d) [] kvs"

text \<open>The list comprehension \<open>[d[key] for key in ks]\<close>: the first missing key raises.\<close>

fun getitems :: "(rat, 'v) dict \<Rightarrow> rat list \<Rightarrow> error + 'v list" where
  "getitems d [] = Inr []"
| "getitems d (k # ks) =
     (case getitem d k of
        Inl e \<Rightarrow> Inl e
      | Inr v \<Rightarrow> (case getitems d ks of Inl e \<Rightarrow> Inl e | Inr vs \<Rightarrow> Inr (v # vs)))"

subsection \<open>Image maps and the two library operations the script calls\<close>

text \<open>
  An image map as the script reads it: its wavelength tag and the five attributes handed
  to the plotting call. Pixel arrays, colour maps and normalisers are library objects the
  script only passes on; they are values of an uninterpreted type \<open>'o\<close>.
\<close>

record 'o smap =
  wavelength :: rat
  data :: 'o
  cmap :: 'o
  mpl_color_normalizer :: 'o
  xrange :: "rat list"
  yrange :: "rat list"

text \<open>
  \<open>rotate(order=3)\<close> and \<open>submap(range_a, range_b)\<close> are SunPy's; the script is
  verified for any such pair of functions, which every definition below takes as the
  parameter \<open>L\<close>.
\<close>

record 'o sunpy =
  rotate_order3 :: "'o smap \<Rightarrow> 'o smap"
  submap :: "'o smap \<Rightarrow> rat \<times> rat \<Rightarrow> rat \<times> rat \<Rightarrow> 'o smap"

subsection \<open>Parameters (lines 27--29)\<close>

definition bx :: rat where "bx = - 300"
definition by' :: rat where "by' = - 150"
definition w :: rat where "w = 600"
definition h :: rat where "h = 300"
definition label_padx :: rat where "label_padx = 50"
definition label_pady :: rat where "label_pady = 20"

subsection \<open>Map construction (lines 47--52)\<close>

text \<open>
  \<open>aia\<close> is the list of maps loaded from the \<open>aia_lev1_*\<close> files, in the order the
  library enumerates them; \<open>hmi\<close> is the map loaded from the \<open>hmi_*\<close> file.
\<close>

definition mapw :: "'o sunpy \<Rightarrow> 'o smap list \<Rightarrow> 'o smap \<Rightarrow> (rat, 'o smap) dict" where
  "mapw L aia hmi =
     (let hmimap = rotate_order3 L hmi;
          d = dict_of (map (\<lambda>m. (wavelength m, rotate_order3 L m)) aia)
      in AList.update 6173 hmimap d)"

subsection \<open>Cropping (lines 62--66)\<close>

definition sorted_wavelengths :: "rat list" where
  "sorted_wavelengths = [335, 211, 171, 304, 6173, 193, 131, 94, 1700]"

text \<open>
  The inner list comprehension looks up every wavelength but the last; the dict
  comprehension keys each crop by the wavelength tag of the map it was cut from; the
  update stores the wide crop under 1700.
\<close>

definition maps_cropped :: "'o sunpy \<Rightarrow> (rat, 'o smap) dict \<Rightarrow> error + (rat, 'o smap) dict" where
  "maps_cropped L mw =
     (case getitems mw (butlast sorted_wavelengths) of
        Inl e \<Rightarrow> Inl e
      | Inr ms \<Rightarrow>
          (let d = dict_of (map (\<lambda>m. (wavelength m, submap L m (bx, bx + w) (by', by' + h))) ms)
           in case getitem mw 1700 of
                Inl e \<Rightarrow> Inl e
              | Inr m \<Rightarrow> Inr (AList.update 1700 (submap L m (- 1000, 1000) (- 1000, 1000)) d)))"

subsection \<open>The figure (lines 69--78)\<close>

text \<open>
  What the plotting library is asked to draw. An axes object records its rectangle
  \<open>(left, bottom, width, height)\<close> in figure fractions and what was put on it. The
  figure owns the axes objects; the script's variables and the \<open>axes\<close> dictionary hold
  references to them, modelled as positions in the figure's list.
\<close>

record 'o image =
  im_data :: 'o
  im_cmap :: 'o
  im_norm :: 'o
  im_extent :: "rat list"

text \<open>
  \<open>Repr_latex_nm k\<close> stands for the string \<open>(k*u.AA).to(u.nm)._repr_latex_()\<close>.
\<close>

datatype label = Repr_latex_nm rat | Str string

datatype text_item = Text rat rat label string nat

datatype patch = Rectangle "rat \<times> rat" rat rat string

type_synonym rect = "rat \<times> rat \<times> rat \<times> rat"

record 'o axes_obj =
  position :: rect
  images :: "'o image list"
  texts :: "text_item list"
  patches :: "patch list"
  xticks :: "rat list option"
  yticks :: "rat list option"

record 'o figure =
  figsize :: "rat \<times> rat"
  axs :: "'o axes_obj list"
  shown :: bool

definition new_figure :: "rat \<times> rat \<Rightarrow> 'o figure" where
  "new_figure sz = \<lparr>figsize = sz, axs = [], shown = False\<rparr>"

text \<open>A new axes object has nothing on it and keeps the automatic ticks.\<close>

definition blank_axes :: "rect \<Rightarrow> 'o axes_obj" where
  "blank_axes r =
     \<lparr>position = r, images = [], texts = [], patches = [], xticks = None, yticks = None\<rparr>"

definition add_axes :: "rect \<Rightarrow> 'o figure \<Rightarrow> nat \<times> 'o figure" where
  "add_axes r fig = (length (axs fig), fig\<lparr>axs := axs fig @ [blank_axes r]\<rparr>)"

text \<open>\<open>[fig.add_axes(r) for r in rs]\<close>: the references in order, and the figure.\<close>

fun add_axes_list :: "rect list \<Rightarrow> 'o figure \<Rightarrow> nat list \<times> 'o figure" where
  "add_axes_list [] fig = ([], fig)"
| "add_axes_list (r # rs) fig =
     (case add_axes r fig of (a, fig1) \<Rightarrow>
        (case add_axes_list rs fig1 of (as, fig2) \<Rightarrow> (a # as, fig2)))"

definition height :: rat where "height = 1 / 4"
definition edge_width :: rat where "edge_width = 1 / 4"

definition left_rects :: "rect list" where
  "left_rects = map (\<lambda>i. (0, of_nat i * height, edge_width, height)) [0..<4]"

definition right_rects :: "rect list" where
  "right_rects = map (\<lambda>i. (1 - edge_width, of_nat i * height, edge_width, height)) [0..<4]"

definition centre_rects :: "rect list" where
  "centre_rects = [(edge_width, 0, 1 - 2 * edge_width, 1)]"

text \<open>Operations on the axes object behind a reference.\<close>

definition on_axes :: "nat \<Rightarrow> ('o axes_obj \<Rightarrow> 'o axes_obj) \<Rightarrow> 'o figure \<Rightarrow> 'o figure" where
  "on_axes a f fig = fig\<lparr>axs := (axs fig)[a := f (axs fig ! a)]\<rparr>"

definition imshow :: "nat \<Rightarrow> 'o image \<Rightarrow> 'o figure \<Rightarrow> 'o figure" where
  "imshow a im = on_axes a (\<lambda>ax. ax\<lparr>images := images ax @ [im]\<rparr>)"

definition ax_text :: "nat \<Rightarrow> text_item \<Rightarrow> 'o figure \<Rightarrow> 'o figure" where
  "ax_text a t = on_axes a (\<lambda>ax. ax\<lparr>texts := texts ax @ [t]\<rparr>)"

definition add_patch :: "nat \<Rightarrow> patch \<Rightarrow> 'o figure \<Rightarrow> 'o figure" where
  "add_patch a p = on_axes a (\<lambda>ax. ax\<lparr>patches := patches ax @ [p]\<rparr>)"

definition set_xticks :: "nat \<Rightarrow> rat list \<Rightarrow> 'o figure \<Rightarrow> 'o figure" where
  "set_xticks a ts = on_axes a (\<lambda>ax. ax\<lparr>xticks := Some ts\<rparr>)"

definition set_yticks :: "nat \<Rightarrow> rat list \<Rightarrow> 'o figure \<Rightarrow> 'o figure" where
  "set_yticks a ts = on_axes a (\<lambda>ax. ax\<lparr>yticks := Some ts\<rparr>)"

subsection \<open>Wavelength to region (line 82)\<close>

text \<open>
  \<open>{wave: ax for wave, ax in zip(ws, regions)}\<close>, as a function of the two lists it
  zips. \<open>zip\<close> stops at the end of the shorter list.
\<close>

definition axes :: "rat list \<Rightarrow> 'a list \<Rightarrow> (rat, 'a) dict" where
  "axes ws regions = dict_of (zip ws regions)"

subsection \<open>Drawing (lines 84--111)\<close>

text \<open>
  \<open>mapwplot(key)\<close> with the two dictionaries it reads as arguments. The receiver
  \<open>axes[key]\<close> is looked up before the arguments \<open>maps[key]\<close>.
\<close>

definition mapwplot ::
  "(rat, nat) dict \<Rightarrow> (rat, 'o smap) dict \<Rightarrow> rat \<Rightarrow> 'o figure \<Rightarrow> 'o figure \<times> error option" where
  "mapwplot ad mp key fig =
     (case getitem ad key of
        Inl e \<Rightarrow> (fig, Some e)
      | Inr a \<Rightarrow>
          (case getitem mp key of
             Inl e \<Rightarrow> (fig, Some e)
           | Inr m \<Rightarrow>
               (let fig1 = imshow a \<lparr>im_data = data m, im_cmap = cmap m,
                                      im_norm = mpl_color_normalizer m,
                                      im_extent = xrange m @ yrange m\<rparr> fig
                in if key \<notin> set [6173, last sorted_wavelengths]
                   then (ax_text a (Text (bx + label_padx) (by' + label_pady)
                                      (Repr_latex_nm key) ''w'' 16) fig1, None)
                   else (fig1, None))))"

text \<open>\<open>map(mapwplot, keys)\<close>: one call per key, in order; an exception ends the loop.\<close>

fun map_mapwplot ::
  "(rat, nat) dict \<Rightarrow> (rat, 'o smap) dict \<Rightarrow> rat list \<Rightarrow> 'o figure \<Rightarrow> 'o figure \<times> error option" where
  "map_mapwplot ad mp [] fig = (fig, None)"
| "map_mapwplot ad mp (k # ks) fig =
     (case mapwplot ad mp k fig of
        (fig1, Some e) \<Rightarrow> (fig1, Some e)
      | (fig1, None) \<Rightarrow> map_mapwplot ad mp ks fig1)"

text \<open>
  Lines 74--78: the four left regions, the four right regions and the centre region are
  created in this order; the result is the list \<open>left_axes + right_axes + centre_axes\<close>
  of references and the figure that owns them.
\<close>

definition make_axes :: "'o figure \<Rightarrow> nat list \<times> 'o figure" where
  "make_axes fig0 =
     (case add_axes_list left_rects fig0 of (left_axes, fig1) \<Rightarrow>
        (case add_axes_list right_rects fig1 of (right_axes, fig2) \<Rightarrow>
           (case add_axes_list centre_rects fig2 of (centre_axes, fig3) \<Rightarrow>
              (left_axes @ right_axes @ centre_axes, fig3))))"

text \<open>
  Lines 97--111: the ticks of every region in the dictionary are removed, the two
  hand-written labels are placed, the rectangle is added to the main image and the figure
  is displayed.
\<close>

definition annotate :: "(rat, nat) dict \<Rightarrow> 'o figure \<Rightarrow> 'o figure \<times> error option" where
  "annotate ad fig4 =
     (let fig5 = foldl (\<lambda>f a. set_xticks a [] f) fig4 (map snd ad);
          fig6 = foldl (\<lambda>f a. set_yticks a [] f) fig5 (map snd ad)
      in (case getitem ad 6173 of
            Inl e \<Rightarrow> (fig6, Some e)
          | Inr a \<Rightarrow>
              (let fig7 = ax_text a (Text (bx + label_padx) (by' + label_padx)
                                       (Str ''LOS Magnetic Field'') ''w'' 16) fig6
               in (case getitem ad (last sorted_wavelengths) of
                     Inl e \<Rightarrow> (fig7, Some e)
                   | Inr c \<Rightarrow>
                       (let fig8 = ax_text c (Text (- 950) (- 990)
                                                (Repr_latex_nm 1700) ''w'' 16) fig7;
                            re = Rectangle (bx, by') w h ''none''
                        in (case getitem ad (last sorted_wavelengths) of
                              Inl e \<Rightarrow> (fig8, Some e)
                            | Inr c' \<Rightarrow> ((add_patch c' re fig8)\<lparr>shown := True\<rparr>, None)))))))"

text \<open>
  The whole rendering stage. It returns the figure as it stands when the stage ends, and
  the exception that ended it if one did.
\<close>

definition render :: "(rat, 'o smap) dict \<Rightarrow> 'o figure \<times> error option" where
  "render mp =
     (case make_axes (new_figure (10, 5)) of (regions, fig3) \<Rightarrow>
        (let ad = axes sorted_wavelengths regions
         in (case map_mapwplot ad mp (map fst mp) fig3 of
               (fig4, Some e) \<Rightarrow> (fig4, Some e)
             | (fig4, None) \<Rightarrow> annotate ad fig4)))"

text \<open>
  The script from line 47 on. No figure exists when the cropping stage raises.
\<close>

definition script :: "'o sunpy \<Rightarrow> 'o smap list \<Rightarrow> 'o smap \<Rightarrow> 'o figure option \<times> error option" where
  "script L aia hmi =
     (case maps_cropped L (mapw L aia hmi) of
        Inl e \<Rightarrow> (None, Some e)
      | Inr mp \<Rightarrow> (case render mp of (fig, e) \<Rightarrow> (Some fig, e)))"

subsection \<open>Notions the properties are stated with\<close>

text \<open>
  The nine rectangles in the order the regions are created, the extent
  \<open>((x0, x1), (y0, y1))\<close> a rectangle spans, and the points of the figure (real
  coordinates) a rectangle covers, boundary included and excluded.
\<close>

definition regions :: "rect list" where
  "regions = left_rects @ right_rects @ centre_rects"

definition extent :: "rect \<Rightarrow> (rat \<times> rat) \<times> (rat \<times> rat)" where
  "extent r = (case r of (l, b, wd, ht) \<Rightarrow> ((l, l + wd), (b, b + ht)))"

definition covers :: "rect \<Rightarrow> real \<times> real \<Rightarrow> bool" where
  "covers r p =
     (case extent r of ((x0, x1), (y0, y1)) \<Rightarrow>
        of_rat x0 \<le> fst p \<and> fst p \<le> of_rat x1 \<and> of_rat y0 \<le> snd p \<and> snd p \<le> of_rat y1)"

definition interior_of :: "rect \<Rightarrow> real \<times> real \<Rightarrow> bool" where
  "interior_of r p =
     (case extent r of ((x0, x1), (y0, y1)) \<Rightarrow>
        of_rat x0 < fst p \<and> fst p < of_rat x1 \<and> of_rat y0 < snd p \<and> snd p < of_rat y1)"

text \<open>
  The image handed to the plotting call for a map: its pixel data, its own colour map and
  normaliser, and its x range followed by its y range as the extent.
\<close>

definition image_of :: "'o smap \<Rightarrow> 'o image" where
  "image_of m = \<lparr>im_data = data m, im_cmap = cmap m, im_norm = mpl_color_normalizer m,
                 im_extent = xrange m @ yrange m\<rparr>"

text \<open>
  A complete input: every wavelength of the ordering list but the magnetic-field one has
  a loaded AIA map, rotation keeps the wavelength tag of the AIA maps, and the rotated
  HMI map is tagged 6173.
\<close>

definition valid_input :: "'o sunpy \<Rightarrow> 'o smap list \<Rightarrow> 'o smap \<Rightarrow> bool" where
  "valid_input L aia hmi \<longleftrightarrow>
     (\<forall>k\<in>set sorted_wavelengths. k \<noteq> 6173 \<longrightarrow> (\<exists>m\<in>set aia. wavelength m = k)) \<and>
     (\<forall>m\<in>set aia. wavelength (rotate_order3 L m) = wavelength m) \<and>
     wavelength (rotate_order3 L hmi) = 6173"

subsection \<open>A synthetic input\<close>

text \<open>
  Eight AIA maps and one HMI map of solid colour: the pixel content is the number
  \<open>data\<close> holds. The stand-in library marks a rotated map by adding 1000 to its content
  and lets a crop report the ranges it was cut to.
\<close>

definition example_lib :: "nat sunpy" where
  "example_lib =
     \<lparr>rotate_order3 = (\<lambda>m. m\<lparr>data := data m + 1000\<rparr>),
      submap = (\<lambda>m xr yr. m\<lparr>xrange := [fst xr, snd xr], yrange := [fst yr, snd yr]\<rparr>)\<rparr>"

definition example_map :: "rat \<Rightarrow> nat \<Rightarrow> nat smap" where
  "example_map k n =
     \<lparr>wavelength = k, data = n, cmap = n + 100, mpl_color_normalizer = n + 200,
      xrange = [- 1200, 1200], yrange = [- 1200, 1200]\<rparr>"

definition example_aia :: "nat smap list" where
  "example_aia =
     [example_map 94 1, example_map 131 2, example_map 171 3, example_map 193 4,
      example_map 211 5, example_map 304 6, example_map 335 7, example_map 1700 8]"

definition example_hmi :: "nat smap" where
  "example_hmi = example_map 6173 9"

text \<open>
  The cropped maps the script builds from the synthetic input.
\<close>

definition example_maps :: "(rat, nat smap) dict" where
  "example_maps =
     map (\<lambda>(k, n). (k, (example_map k n)
            \<lparr>data := n + 1000, xrange := [- 300, 300], yrange := [- 150, 150]\<rparr>))
       [(335, 7), (211, 5), (171, 3), (304, 6), (6173, 9), (193, 4), (131, 2), (94, 1)] @
     [(1700, (example_map 1700 8)
         \<lparr>data := 1008, xrange := [- 1000, 1000], yrange := [- 1000, 1000]\<rparr>)]"

section \<open>Dictionaries\<close>

lemma update_fresh: "k \<notin> fst ` set d \<Longrightarrow> AList.update k v d = d @ [(k, v)]"
  by (induction d) auto

lemma foldl_update_map_of:
  "map_of (foldl (\<lambda>d (k, v). AList.update k v d) d kvs) = map_of d ++ map_of (rev kvs)"
proof (induction kvs arbitrary: d)
  case Nil
  show ?case by simp
next
  case (Cons kv kvs)
  obtain k v where kv: "kv = (k, v)" by (cases kv)
  show ?case
    by (simp add: Cons.IH kv update_conv' map_add_upd_left fun_eq_iff map_add_def
        split: option.splits)
qed

lemma map_of_dict_of: "map_of (dict_of kvs) = map_of (rev kvs)"
  by (simp add: dict_of_def foldl_update_map_of)

lemma foldl_update_distinct:
  "distinct (map fst d) \<Longrightarrow> distinct (map fst (foldl (\<lambda>d (k, v). AList.update k v d) d kvs))"
proof (induction kvs arbitrary: d)
  case Nil
  then show ?case by simp
next
  case (Cons kv kvs)
  obtain k v where kv: "kv = (k, v)" by (cases kv)
  show ?case
    using Cons.prems by (simp add: kv Cons.IH distinct_update)
qed

lemma distinct_dict_of: "distinct (map fst (dict_of kvs))"
  by (simp add: dict_of_def foldl_update_distinct)

lemma foldl_update_fresh:
  "distinct (map fst (d @ kvs)) \<Longrightarrow> foldl (\<lambda>d (k, v). AList.update k v d) d kvs = d @ kvs"
proof (induction kvs arbitrary: d)
  case Nil
  show ?case by simp
next
  case (Cons kv kvs)
  obtain k v where kv: "kv = (k, v)" by (cases kv)
  have fresh: "k \<notin> fst ` set d" using Cons.prems by (auto simp: kv)
  have "distinct (map fst ((d @ [(k, v)]) @ kvs))" using Cons.prems by (simp add: kv)
  then have "foldl (\<lambda>d (k, v). AList.update k v d) (d @ [(k, v)]) kvs = (d @ [(k, v)]) @ kvs"
    by (rule Cons.IH)
  then show ?case by (simp add: kv update_fresh [OF fresh])
qed

lemma dict_of_distinct: "distinct (map fst kvs) \<Longrightarrow> dict_of kvs = kvs"
  using foldl_update_fresh [of "[]" kvs] by (simp add: dict_of_def)

lemma map_of_rev_last:
  "map_of (rev (map (\<lambda>m. (key m, f m)) ms)) k =
     (case filter (\<lambda>m. key m = k) ms of [] \<Rightarrow> None | m # ms' \<Rightarrow> Some (f (last (m # ms'))))"
proof (induction ms rule: rev_induct)
  case Nil
  show ?case by simp
next
  case (snoc m ms)
  show ?case
    by (cases "filter (\<lambda>m. key m = k) ms") (simp_all add: snoc.IH)
qed

lemma getitems_Inr:
  "(\<And>k. k \<in> set ks \<Longrightarrow> map_of d k = Some (f k)) \<Longrightarrow> getitems d ks = Inr (map f ks)"
  by (induction ks) (simp_all add: getitem_def)

lemma getitems_Inl:
  "\<exists>k\<in>set ks. map_of d k = None \<Longrightarrow>
   getitems d ks = Inl (KeyError (hd (filter (\<lambda>k. map_of d k = None) ks)))"
proof (induction ks)
  case Nil
  then show ?case by simp
next
  case (Cons k ks)
  show ?case
  proof (cases "map_of d k")
    case None
    then show ?thesis by (simp add: getitem_def)
  next
    case (Some v)
    with Cons.prems have "\<exists>k\<in>set ks. map_of d k = None" by auto
    then have "getitems d ks = Inl (KeyError (hd (filter (\<lambda>k. map_of d k = None) ks)))"
      by (rule Cons.IH)
    with Some show ?thesis by (simp add: getitem_def)
  qed
qed

lemma getitems_snoc:
  "getitems d (ks @ [k]) =
     (case getitems d ks of
        Inl e \<Rightarrow> Inl e
      | Inr vs \<Rightarrow> (case getitem d k of Inl e \<Rightarrow> Inl e | Inr v \<Rightarrow> Inr (vs @ [v])))"
  by (induction ks) (simp_all split: sum.splits)

section \<open>Map construction\<close>

text \<open>
  C10. The wavelength-to-map dictionary holds one map per key. Under 6173 it holds the
  rotated HMI map, whatever the AIA files were; under any other key it holds the rotated
  map of the last loaded AIA file with that wavelength, and nothing when there is none.
\<close>

theorem mapw_one_map_per_wavelength:
  "distinct (map fst (mapw L aia hmi)) \<and>
   map_of (mapw L aia hmi) k =
     (if k = 6173 then Some (rotate_order3 L hmi)
      else case filter (\<lambda>m. wavelength m = k) aia of
             [] \<Rightarrow> None
           | m # ms \<Rightarrow> Some (rotate_order3 L (last (m # ms))))"
proof -
  have "distinct (map fst (mapw L aia hmi))"
    by (simp add: mapw_def Let_def distinct_update distinct_dict_of)
  moreover have "map_of (mapw L aia hmi) k =
     (if k = 6173 then Some (rotate_order3 L hmi)
      else case filter (\<lambda>m. wavelength m = k) aia of
             [] \<Rightarrow> None
           | m # ms \<Rightarrow> Some (rotate_order3 L (last (m # ms))))"
    by (simp add: mapw_def Let_def update_conv' map_of_dict_of map_of_rev_last del: last.simps)
  ultimately show ?thesis by simp
qed

section \<open>Cropping\<close>

lemma sorted_wavelengths_snoc: "sorted_wavelengths = butlast sorted_wavelengths @ [1700]"
  by (simp add: sorted_wavelengths_def)

lemma maps_cropped_Inl:
  assumes "getitems mw sorted_wavelengths = Inl e"
  shows "maps_cropped L mw = Inl e"
proof -
  from assms have "getitems mw (butlast sorted_wavelengths @ [1700]) = Inl e"
    using sorted_wavelengths_snoc by simp
  then show ?thesis
    unfolding getitems_snoc maps_cropped_def
    by (auto simp: Let_def split: sum.splits)
qed

text \<open>
  C4. When a wavelength of the ordering list has no entry in the wavelength-to-map
  dictionary, the script ends in the cropping stage with a \<open>KeyError\<close> for the first such
  wavelength of the list, and no figure has been created.
\<close>

theorem missing_wavelength_raises:
  assumes "k \<in> set sorted_wavelengths" and "map_of (mapw L aia hmi) k = None"
  shows "script L aia hmi =
           (None, Some (KeyError (hd (filter (\<lambda>k. map_of (mapw L aia hmi) k = None)
                                        sorted_wavelengths))))"
proof -
  from assms have "\<exists>k\<in>set sorted_wavelengths. map_of (mapw L aia hmi) k = None" by blast
  then have "getitems (mapw L aia hmi) sorted_wavelengths =
      Inl (KeyError (hd (filter (\<lambda>k. map_of (mapw L aia hmi) k = None) sorted_wavelengths)))"
    by (rule getitems_Inl)
  then show ?thesis
    by (simp add: script_def maps_cropped_Inl)
qed

text \<open>The synthetic input without its 1700 file.\<close>

theorem missing_wavelength_raises_witness:
  "1700 \<in> set sorted_wavelengths \<and>
   map_of (mapw example_lib (butlast example_aia) example_hmi) 1700 = None \<and>
   script example_lib (butlast example_aia) example_hmi = (None, Some (KeyError 1700))"
  using missing_wavelength_raises [of 1700 example_lib "butlast example_aia" example_hmi]
  by (simp add: sorted_wavelengths_def mapw_def dict_of_def example_aia_def example_map_def
      example_hmi_def example_lib_def)

section \<open>The plot regions\<close>

lemma upt_4: "[0..<4] = [0, 1, 2, 3]"
  by (simp add: upt_rec)

lemma upt_9: "[0..<9] = [0, 1, 2, 3, 4, 5, 6, 7, 8]"
  by (simp add: upt_rec)

lemma regions_explicit:
  "regions = [(0, 0, 1/4, 1/4), (0, 1/4, 1/4, 1/4), (0, 1/2, 1/4, 1/4), (0, 3/4, 1/4, 1/4),
              (3/4, 0, 1/4, 1/4), (3/4, 1/4, 1/4, 1/4), (3/4, 1/2, 1/4, 1/4),
              (3/4, 3/4, 1/4, 1/4), (1/4, 0, 1/2, 1)]"
  by (simp add: regions_def left_rects_def right_rects_def centre_rects_def height_def
      edge_width_def upt_4)

lemma make_axes_new_figure:
  "make_axes (new_figure sz) =
     ([0..<9], \<lparr>figsize = sz, axs = map blank_axes regions, shown = False\<rparr>)"
  unfolding upt_9
  by (simp add: make_axes_def new_figure_def add_axes_def regions_def left_rects_def
      right_rects_def centre_rects_def upt_4)

lemma regions_cover_unit_square:
  "(\<exists>r\<in>set regions. covers r (x, y)) = (0 \<le> x \<and> x \<le> 1 \<and> 0 \<le> y \<and> y \<le> 1)"
  unfolding regions_explicit
  by (simp add: covers_def extent_def of_rat_divide) argo

lemma pairwise_insert_ball:
  "pairwise P (insert x S) = ((\<forall>y\<in>S. y \<noteq> x \<longrightarrow> P x y \<and> P y x) \<and> pairwise P S)"
  by (auto simp: pairwise_insert)

lemma regions_interiors_disjoint:
  "pairwise (\<lambda>r s. \<not> (\<exists>p. interior_of r p \<and> interior_of s p)) (set regions)"
  unfolding regions_explicit
  by (simp add: pairwise_insert_ball interior_of_def extent_def of_rat_divide)

text \<open>
  C9. The four left regions span \<open>[0, 1/4]\<close> in x and the quarters of \<open>[0, 1]\<close> in y from
  the bottom up, the four right regions span \<open>[3/4, 1]\<close> in x and the same quarters, the
  centre region spans \<open>[1/4, 3/4] \<times> [0, 1]\<close>. They are the rectangles of the nine axes of
  the figure, no two of them are the same, no point lies inside two of them, and a point
  of the figure is covered by one of them exactly when it lies in the unit square.
\<close>

theorem regions_tile_unit_square:
  "map extent left_rects =
     [((0, 1/4), (0, 1/4)), ((0, 1/4), (1/4, 1/2)), ((0, 1/4), (1/2, 3/4)), ((0, 1/4), (3/4, 1))] \<and>
   map extent right_rects =
     [((3/4, 1), (0, 1/4)), ((3/4, 1), (1/4, 1/2)), ((3/4, 1), (1/2, 3/4)), ((3/4, 1), (3/4, 1))] \<and>
   map extent centre_rects = [((1/4, 3/4), (0, 1))] \<and>
   map position (axs (snd (make_axes (new_figure sz :: 'o figure)))) = regions \<and>
   distinct regions \<and>
   pairwise (\<lambda>r s. \<not> (\<exists>p. interior_of r p \<and> interior_of s p)) (set regions) \<and>
   (\<forall>x y. (\<exists>r\<in>set regions. covers r (x, y)) = (0 \<le> x \<and> x \<le> 1 \<and> 0 \<le> y \<and> y \<le> 1))"
proof -
  have "map extent left_rects =
     [((0, 1/4), (0, 1/4)), ((0, 1/4), (1/4, 1/2)), ((0, 1/4), (1/2, 3/4)), ((0, 1/4), (3/4, 1))]"
    by (simp add: left_rects_def extent_def height_def edge_width_def upt_4)
  moreover have "map extent right_rects =
     [((3/4, 1), (0, 1/4)), ((3/4, 1), (1/4, 1/2)), ((3/4, 1), (1/2, 3/4)), ((3/4, 1), (3/4, 1))]"
    by (simp add: right_rects_def extent_def height_def edge_width_def upt_4)
  moreover have "map extent centre_rects = [((1/4, 3/4), (0, 1))]"
    by (simp add: centre_rects_def extent_def edge_width_def)
  moreover have "map position (axs (snd (make_axes (new_figure sz :: 'o figure)))) = regions"
    by (simp add: make_axes_new_figure blank_axes_def comp_def)
  moreover have "distinct regions"
    by (simp add: regions_explicit)
  ultimately show ?thesis
    using regions_interiors_disjoint regions_cover_unit_square by blast
qed

section \<open>Wavelength to region\<close>

lemma zip_take_length: "zip (take (length ys) xs) ys = zip xs ys"
proof (induction xs arbitrary: ys)
  case Nil
  show ?case by simp
next
  case (Cons x xs)
  show ?case by (cases ys) (simp_all add: Cons.IH)
qed

lemma axes_distinct:
  assumes "distinct ws"
  shows "axes ws rs = zip ws rs"
proof -
  have "distinct (map fst (zip ws rs))"
    using assms by (simp add: map_fst_zip_take distinct_take)
  then show ?thesis by (simp add: axes_def dict_of_distinct)
qed

lemma axes_nth:
  assumes "distinct ws" and "i < length ws"
  shows "map_of (axes ws rs) (ws ! i) = (if i < length rs then Some (rs ! i) else None)"
proof (cases "i < length rs")
  case True
  let ?n = "min (length ws) (length rs)"
  have "zip (take ?n ws) (take ?n rs) = take ?n (zip ws rs)"
    by (simp only: take_zip)
  then have z: "zip ws rs = zip (take ?n ws) (take ?n rs)"
    by simp
  have "map_of (zip (take ?n ws) (take ?n rs)) (take ?n ws ! i) = Some (take ?n rs ! i)"
    using assms True by (intro map_of_zip_nth) (simp_all add: distinct_take)
  with True assms z show ?thesis by (simp add: axes_distinct)
next
  case False
  have "ws ! i \<notin> set (take (length rs) ws)"
  proof
    assume "ws ! i \<in> set (take (length rs) ws)"
    then obtain j where j: "j < length (take (length rs) ws)" "take (length rs) ws ! j = ws ! i"
      by (auto simp: in_set_conv_nth)
    then have "j < length rs" "j < length ws" "ws ! j = ws ! i" by simp_all
    with assms have "j = i" by (simp add: nth_eq_iff_index_eq)
    with \<open>j < length rs\<close> False show False by simp
  qed
  moreover have "map fst (zip ws rs) = take (length rs) ws"
    using False assms by (simp add: map_fst_zip_take min_def)
  then have "fst ` set (zip ws rs) = set (take (length rs) ws)"
    by (simp only: set_map [symmetric])
  ultimately have "ws ! i \<notin> fst ` set (zip ws rs)"
    by simp
  then have "map_of (zip ws rs) (ws ! i) = None"
    by (simp add: map_of_eq_None_iff)
  with False assms show ?thesis by (simp add: axes_distinct)
qed

text \<open>
  C3, as the script has it. Line 82 has no operation that raises: the dictionary is built
  from \<open>zip\<close>, which stops at the end of the shorter list. For an ordering list without
  repeats the dictionary is the list of the pairs of a wavelength and the region at the
  same position, as far as the regions go: a wavelength at a position that has a region
  is assigned that region, and a wavelength beyond the number of regions is assigned
  none. The shipped ordering list has nine entries, and nine regions are created.
\<close>

theorem axes_zip_truncates:
  assumes "distinct ws"
  shows "axes ws rs = zip (take (length rs) ws) rs \<and>
   (\<forall>i<length ws.
      map_of (axes ws rs) (ws ! i) = (if i < length rs then Some (rs ! i) else None)) \<and>
   length sorted_wavelengths = 9 \<and> length regions = 9 \<and>
   fst (make_axes (new_figure sz :: 'o figure)) = [0..<9]"
proof -
  have "axes ws rs = zip (take (length rs) ws) rs"
    using assms by (simp add: axes_distinct zip_take_length)
  moreover have "\<forall>i<length ws.
      map_of (axes ws rs) (ws ! i) = (if i < length rs then Some (rs ! i) else None)"
    using assms by (simp add: axes_nth)
  moreover have "length sorted_wavelengths = 9"
    by (simp add: sorted_wavelengths_def)
  moreover have "length regions = 9"
    by (simp add: regions_explicit)
  moreover have "fst (make_axes (new_figure sz :: 'o figure)) = [0..<9]"
    by (simp add: make_axes_new_figure)
  ultimately show ?thesis by simp
qed

text \<open>
  The shipped ordering list with a tenth wavelength, 1600, appended, over the nine
  regions: 1700 keeps the ninth region and 1600 has none.
\<close>

theorem axes_zip_truncates_witness:
  "distinct (sorted_wavelengths @ [1600]) \<and>
   axes (sorted_wavelengths @ [1600]) [0..<9] = zip (take 9 (sorted_wavelengths @ [1600])) [0..<9] \<and>
   map_of (axes (sorted_wavelengths @ [1600]) [0..<9]) ((sorted_wavelengths @ [1600]) ! 8) = Some 8 \<and>
   map_of (axes (sorted_wavelengths @ [1600]) [0..<9]) ((sorted_wavelengths @ [1600]) ! 9) = None"
proof -
  let ?ws = "sorted_wavelengths @ [1600]"
  have d: "distinct ?ws"
    by (simp add: sorted_wavelengths_def)
  from axes_zip_truncates [OF d, of "[0..<9]"]
  have a: "axes ?ws [0..<9] = zip (take (length [0..<9]) ?ws) [0..<9]"
    and n: "\<forall>i<length ?ws.
      map_of (axes ?ws [0..<9]) (?ws ! i) =
        (if i < length [0..<9] then Some ([0..<9] ! i) else None)"
    by blast+
  from a have "axes ?ws [0..<9] = zip (take 9 ?ws) [0..<9]"
    by simp
  moreover have "8 < length ?ws" and "9 < length ?ws"
    by (simp_all add: sorted_wavelengths_def)
  with n have "map_of (axes ?ws [0..<9]) (?ws ! 8) = Some 8"
    and "map_of (axes ?ws [0..<9]) (?ws ! 9) = None"
    by simp_all
  ultimately show ?thesis
    using d by simp
qed

text \<open>
  With a tenth wavelength appended, the assignment over the nine regions the script
  creates is built without an error and is the shipped one, each of the nine wavelengths
  with the region at its position: the tenth wavelength has no region.
\<close>

theorem tenth_wavelength_dropped:
  "axes (sorted_wavelengths @ [1600]) (fst (make_axes (new_figure (10, 5) :: nat figure))) =
     [(335, 0), (211, 1), (171, 2), (304, 3), (6173, 4), (193, 5), (131, 6), (94, 7), (1700, 8)] \<and>
   axes sorted_wavelengths (fst (make_axes (new_figure (10, 5) :: nat figure))) =
     [(335, 0), (211, 1), (171, 2), (304, 3), (6173, 4), (193, 5), (131, 6), (94, 7), (1700, 8)] \<and>
   map_of (axes (sorted_wavelengths @ [1600])
             (fst (make_axes (new_figure (10, 5) :: nat figure)))) 1600 = None"
  by (simp add: make_axes_new_figure upt_9 axes_def dict_of_def sorted_wavelengths_def)

section \<open>Rendering\<close>

lemma axes_shipped:
  "axes sorted_wavelengths [0..<9] = zip sorted_wavelengths [0..<9]"
  by (simp add: axes_def dict_of_distinct sorted_wavelengths_def upt_9)

lemma axes_shipped_lookup:
  "map_of (axes sorted_wavelengths [0..<9]) k = Some a \<longleftrightarrow> a < 9 \<and> sorted_wavelengths ! a = k"
proof
  assume "map_of (axes sorted_wavelengths [0..<9]) k = Some a"
  then have "(k, a) \<in> set (zip sorted_wavelengths [0..<9])"
    unfolding axes_shipped by (rule map_of_SomeD)
  then obtain n where "n < 9" "sorted_wavelengths ! n = k" "[0..<9] ! n = a"
    by (auto simp: in_set_zip)
  then show "a < 9 \<and> sorted_wavelengths ! a = k" by simp
next
  assume a: "a < 9 \<and> sorted_wavelengths ! a = k"
  have "map_of (zip sorted_wavelengths [0..<9]) (sorted_wavelengths ! a) = Some ([0..<9] ! a)"
    using a by (intro map_of_zip_nth) (simp_all add: sorted_wavelengths_def)
  with a show "map_of (axes sorted_wavelengths [0..<9]) k = Some a"
    by (simp add: axes_shipped)
qed

lemma mapwplot_step:
  assumes "map_of ad k = Some a" and "map_of mp k = Some m"
  shows "mapwplot ad mp k fig =
     (fig\<lparr>axs := (axs fig)[a := (axs fig ! a)
         \<lparr>images := images (axs fig ! a) @ [image_of m],
          texts := texts (axs fig ! a) @
            (if k = 6173 \<or> k = 1700 then [] else [Text (- 250) (- 130) (Repr_latex_nm k) ''w'' 16])\<rparr>]\<rparr>,
      None)"
proof (cases "a < length (axs fig)")
  case True
  then show ?thesis
    using assms
    by (simp add: mapwplot_def getitem_def imshow_def ax_text_def on_axes_def image_of_def
      sorted_wavelengths_def bx_def by'_def label_padx_def label_pady_def)
next
  case False
  then have "length (axs fig) \<le> a" by simp
  then show ?thesis
    using assms
    by (simp add: mapwplot_def getitem_def imshow_def ax_text_def on_axes_def
      list_update_beyond)
qed

lemma map_mapwplot_spec:
  assumes "\<forall>k\<in>set ks. \<exists>a m. map_of ad k = Some a \<and> map_of mp k = Some m"
  shows "\<exists>fig'. map_mapwplot ad mp ks fig = (fig', None) \<and>
           figsize fig' = figsize fig \<and> shown fig' = shown fig \<and>
           length (axs fig') = length (axs fig) \<and>
           (\<forall>a<length (axs fig). axs fig' ! a = (axs fig ! a)
              \<lparr>images := images (axs fig ! a) @
                 map (\<lambda>k. image_of (the (map_of mp k))) (filter (\<lambda>k. map_of ad k = Some a) ks),
               texts := texts (axs fig ! a) @
                 map (\<lambda>k. Text (- 250) (- 130) (Repr_latex_nm k) ''w'' 16)
                   (filter (\<lambda>k. map_of ad k = Some a \<and> k \<noteq> 6173 \<and> k \<noteq> 1700) ks)\<rparr>)"
  using assms
proof (induction ks arbitrary: fig)
  case Nil
  show ?case by simp
next
  case (Cons k ks)
  from Cons.prems obtain a m where am: "map_of ad k = Some a" "map_of mp k = Some m"
    by auto
  let ?fig1 = "fig\<lparr>axs := (axs fig)[a := (axs fig ! a)
         \<lparr>images := images (axs fig ! a) @ [image_of m],
          texts := texts (axs fig ! a) @
            (if k = 6173 \<or> k = 1700 then [] else [Text (- 250) (- 130) (Repr_latex_nm k) ''w'' 16])\<rparr>]\<rparr>"
  have step: "mapwplot ad mp k fig = (?fig1, None)"
    using am by (rule mapwplot_step)
  from Cons.prems have "\<forall>k\<in>set ks. \<exists>a m. map_of ad k = Some a \<and> map_of mp k = Some m"
    by simp
  from Cons.IH [OF this, of ?fig1]
  obtain fig' where fig': "map_mapwplot ad mp ks ?fig1 = (fig', None)"
      "figsize fig' = figsize fig" "shown fig' = shown fig"
      "length (axs fig') = length (axs fig)"
      "\<forall>b<length (axs fig). axs fig' ! b = (axs ?fig1 ! b)
              \<lparr>images := images (axs ?fig1 ! b) @
                 map (\<lambda>k. image_of (the (map_of mp k))) (filter (\<lambda>k. map_of ad k = Some b) ks),
               texts := texts (axs ?fig1 ! b) @
                 map (\<lambda>k. Text (- 250) (- 130) (Repr_latex_nm k) ''w'' 16)
                   (filter (\<lambda>k. map_of ad k = Some b \<and> k \<noteq> 6173 \<and> k \<noteq> 1700) ks)\<rparr>"
    by auto
  have "map_mapwplot ad mp (k # ks) fig = (fig', None)"
    by (simp add: step fig'(1))
  moreover have "\<forall>b<length (axs fig). axs fig' ! b = (axs fig ! b)
              \<lparr>images := images (axs fig ! b) @
                 map (\<lambda>k. image_of (the (map_of mp k))) (filter (\<lambda>k. map_of ad k = Some b) (k # ks)),
               texts := texts (axs fig ! b) @
                 map (\<lambda>k. Text (- 250) (- 130) (Repr_latex_nm k) ''w'' 16)
                   (filter (\<lambda>k. map_of ad k = Some b \<and> k \<noteq> 6173 \<and> k \<noteq> 1700) (k # ks))\<rparr>"
  proof (intro allI impI)
    fix b assume b: "b < length (axs fig)"
    show "axs fig' ! b = (axs fig ! b)
              \<lparr>images := images (axs fig ! b) @
                 map (\<lambda>k. image_of (the (map_of mp k))) (filter (\<lambda>k. map_of ad k = Some b) (k # ks)),
               texts := texts (axs fig ! b) @
                 map (\<lambda>k. Text (- 250) (- 130) (Repr_latex_nm k) ''w'' 16)
                   (filter (\<lambda>k. map_of ad k = Some b \<and> k \<noteq> 6173 \<and> k \<noteq> 1700) (k # ks))\<rparr>"
      using fig'(5) b am by (cases "b = a") auto
  qed
  ultimately show ?case
    using fig'(2,3,4) by blast
qed

lemma all_less_9:
  "(\<forall>i<9. P i) \<longleftrightarrow> P (0::nat) \<and> P 1 \<and> P 2 \<and> P 3 \<and> P 4 \<and> P 5 \<and> P 6 \<and> P 7 \<and> P 8"
proof
  assume "\<forall>i<9. P i"
  then show "P 0 \<and> P 1 \<and> P 2 \<and> P 3 \<and> P 4 \<and> P 5 \<and> P 6 \<and> P 7 \<and> P 8" by simp
next
  assume r: "P 0 \<and> P 1 \<and> P 2 \<and> P 3 \<and> P 4 \<and> P 5 \<and> P 6 \<and> P 7 \<and> P 8"
  show "\<forall>i<9. P i"
  proof (intro allI impI)
    fix i :: nat
    assume "i < 9"
    then have "i = 0 \<or> i = 1 \<or> i = 2 \<or> i = 3 \<or> i = 4 \<or> i = 5 \<or> i = 6 \<or> i = 7 \<or> i = 8"
      by arith
    with r show "P i" by blast
  qed
qed

lemma axes_shipped_explicit:
  "axes sorted_wavelengths [0..<9] =
     [(335, 0), (211, 1), (171, 2), (304, 3), (6173, 4), (193, 5), (131, 6), (94, 7), (1700, 8)]"
  unfolding axes_shipped by (simp add: sorted_wavelengths_def upt_9)

lemma length_9:
  assumes "length xs = 9"
  obtains a0 a1 a2 a3 a4 a5 a6 a7 a8 where "xs = [a0, a1, a2, a3, a4, a5, a6, a7, a8]"
  using assms by (auto simp: numeral_eq_Suc length_Suc_conv)

lemma annotate_shipped:
  assumes "length (axs fig) = 9"
  shows "\<exists>fig'. annotate (axes sorted_wavelengths [0..<9]) fig = (fig', None) \<and>
           figsize fig' = figsize fig \<and> shown fig' \<and> length (axs fig') = 9 \<and>
           (\<forall>i<9. axs fig' ! i = (axs fig ! i)
              \<lparr>texts := texts (axs fig ! i) @
                 (if i = 4 then [Text (- 250) (- 100) (Str ''LOS Magnetic Field'') ''w'' 16]
                  else if i = 8 then [Text (- 950) (- 990) (Repr_latex_nm 1700) ''w'' 16]
                  else []),
               patches := patches (axs fig ! i) @
                 (if i = 8 then [Rectangle (- 300, - 150) 600 300 ''none''] else []),
               xticks := Some [], yticks := Some []\<rparr>)"
proof -
  from assms obtain a0 a1 a2 a3 a4 a5 a6 a7 a8
    where xs: "axs fig = [a0, a1, a2, a3, a4, a5, a6, a7, a8]"
    by (rule length_9)
  show ?thesis
    unfolding all_less_9 axes_shipped_explicit
    by (simp add: xs annotate_def sorted_wavelengths_def getitem_def set_xticks_def
        set_yticks_def ax_text_def add_patch_def on_axes_def bx_def by'_def w_def h_def
        label_padx_def)
qed

lemma filter_eq_distinct:
  "distinct ks \<Longrightarrow> filter (\<lambda>k. c = k \<and> Q k) ks = (if c \<in> set ks \<and> Q c then [c] else [])"
  by (induction ks) auto

lemma render_spec:
  assumes "distinct (map fst mp)" and "fst ` set mp \<subseteq> set sorted_wavelengths"
  shows "\<exists>fig. render mp = (fig, None) \<and> figsize fig = (10, 5) \<and> shown fig \<and>
           length (axs fig) = 9 \<and>
           (\<forall>i<9. axs fig ! i =
              \<lparr>position = regions ! i,
               images = (case map_of mp (sorted_wavelengths ! i) of
                           None \<Rightarrow> [] | Some m \<Rightarrow> [image_of m]),
               texts =
                 (if sorted_wavelengths ! i \<in> fst ` set mp \<and> i \<noteq> 4 \<and> i \<noteq> 8
                  then [Text (- 250) (- 130) (Repr_latex_nm (sorted_wavelengths ! i)) ''w'' 16]
                  else []) @
                 (if i = 4 then [Text (- 250) (- 100) (Str ''LOS Magnetic Field'') ''w'' 16]
                  else if i = 8 then [Text (- 950) (- 990) (Repr_latex_nm 1700) ''w'' 16]
                  else []),
               patches = (if i = 8 then [Rectangle (- 300, - 150) 600 300 ''none''] else []),
               xticks = Some [], yticks = Some []\<rparr>)"
proof -
  let ?ad = "axes sorted_wavelengths [0..<9]"
  let ?fig3 = "\<lparr>figsize = (10, 5), axs = map blank_axes regions, shown = False\<rparr> :: 'a figure"
  let ?ks = "map fst mp"
  have len: "length sorted_wavelengths = 9"
    by (simp add: sorted_wavelengths_def)
  have lenr: "length regions = 9"
    by (simp add: regions_explicit)
  have len3: "length (axs ?fig3) = 9"
    by (simp add: regions_explicit)
  have pre: "\<forall>k\<in>set ?ks. \<exists>a m. map_of ?ad k = Some a \<and> map_of mp k = Some m"
  proof
    fix k assume k: "k \<in> set ?ks"
    with assms(2) have "k \<in> set sorted_wavelengths" by auto
    then obtain a where "a < length sorted_wavelengths" "sorted_wavelengths ! a = k"
      by (auto simp: in_set_conv_nth)
    then have "a < 9 \<and> sorted_wavelengths ! a = k"
      unfolding len by simp
    then have "map_of ?ad k = Some a"
      by (simp only: axes_shipped_lookup)
    moreover from k obtain m where "map_of mp k = Some m"
      by (cases "map_of mp k") (auto simp: map_of_eq_None_iff)
    ultimately show "\<exists>a m. map_of ?ad k = Some a \<and> map_of mp k = Some m" by blast
  qed
  from map_mapwplot_spec [OF pre, of ?fig3]
  obtain fig4 where fig4: "map_mapwplot ?ad mp ?ks ?fig3 = (fig4, None)"
      "figsize fig4 = (10, 5)" "length (axs fig4) = 9"
      "\<forall>a<9. axs fig4 ! a = (axs ?fig3 ! a)
              \<lparr>images := images (axs ?fig3 ! a) @
                 map (\<lambda>k. image_of (the (map_of mp k))) (filter (\<lambda>k. map_of ?ad k = Some a) ?ks),
               texts := texts (axs ?fig3 ! a) @
                 map (\<lambda>k. Text (- 250) (- 130) (Repr_latex_nm k) ''w'' 16)
                   (filter (\<lambda>k. map_of ?ad k = Some a \<and> k \<noteq> 6173 \<and> k \<noteq> 1700) ?ks)\<rparr>"
    unfolding len3 by auto
  from annotate_shipped [OF fig4(3)]
  obtain fig' where fig': "annotate ?ad fig4 = (fig', None)"
      "figsize fig' = figsize fig4" "shown fig'" "length (axs fig') = 9"
      "\<forall>i<9. axs fig' ! i = (axs fig4 ! i)
              \<lparr>texts := texts (axs fig4 ! i) @
                 (if i = 4 then [Text (- 250) (- 100) (Str ''LOS Magnetic Field'') ''w'' 16]
                  else if i = 8 then [Text (- 950) (- 990) (Repr_latex_nm 1700) ''w'' 16]
                  else []),
               patches := patches (axs fig4 ! i) @
                 (if i = 8 then [Rectangle (- 300, - 150) 600 300 ''none''] else []),
               xticks := Some [], yticks := Some []\<rparr>"
    by auto
  have r: "render mp = (fig', None)"
    by (simp add: render_def make_axes_new_figure fig4(1) fig'(1))
  have ax: "axs fig' ! i =
              \<lparr>position = regions ! i,
               images = (case map_of mp (sorted_wavelengths ! i) of
                           None \<Rightarrow> [] | Some m \<Rightarrow> [image_of m]),
               texts =
                 (if sorted_wavelengths ! i \<in> fst ` set mp \<and> i \<noteq> 4 \<and> i \<noteq> 8
                  then [Text (- 250) (- 130) (Repr_latex_nm (sorted_wavelengths ! i)) ''w'' 16]
                  else []) @
                 (if i = 4 then [Text (- 250) (- 100) (Str ''LOS Magnetic Field'') ''w'' 16]
                  else if i = 8 then [Text (- 950) (- 990) (Repr_latex_nm 1700) ''w'' 16]
                  else []),
               patches = (if i = 8 then [Rectangle (- 300, - 150) 600 300 ''none''] else []),
               xticks = Some [], yticks = Some []\<rparr>" if i: "i < 9" for i
  proof -
    let ?c = "sorted_wavelengths ! i"
    have f1: "filter (\<lambda>k. map_of ?ad k = Some i) ?ks = (if ?c \<in> set ?ks then [?c] else [])"
      using filter_eq_distinct [OF assms(1), of ?c "\<lambda>_. True"] i
      by (simp add: axes_shipped_lookup)
    have f2: "filter (\<lambda>k. map_of ?ad k = Some i \<and> k \<noteq> 6173 \<and> k \<noteq> 1700) ?ks =
        (if ?c \<in> set ?ks \<and> ?c \<noteq> 6173 \<and> ?c \<noteq> 1700 then [?c] else [])"
      using filter_eq_distinct [OF assms(1), of ?c "\<lambda>k. k \<noteq> 6173 \<and> k \<noteq> 1700"] i
      by (simp add: axes_shipped_lookup conj_assoc)
    have sp: "(?c \<noteq> 6173 \<and> ?c \<noteq> 1700) = (i \<noteq> 4 \<and> i \<noteq> 8)"
      using i unfolding sorted_wavelengths_def
      by (rule_tac all_less_9 [THEN iffD2, rule_format, of _ i]) simp_all
    have im: "map (\<lambda>k. image_of (the (map_of mp k))) (if ?c \<in> set ?ks then [?c] else []) =
        (case map_of mp ?c of None \<Rightarrow> [] | Some m \<Rightarrow> [image_of m])"
    proof (cases "map_of mp ?c")
      case None
      then have "?c \<notin> fst ` set mp" by (simp add: map_of_eq_None_iff)
      with None show ?thesis by simp
    next
      case (Some m)
      then have "(?c, m) \<in> set mp" by (rule map_of_SomeD)
      then have "?c \<in> fst ` set mp" by force
      with Some show ?thesis by simp
    qed
    have b: "axs ?fig3 ! i = blank_axes (regions ! i)"
      using i lenr by simp
    from fig4(4) i have e1: "axs fig4 ! i = (axs ?fig3 ! i)
              \<lparr>images := images (axs ?fig3 ! i) @
                 map (\<lambda>k. image_of (the (map_of mp k))) (filter (\<lambda>k. map_of ?ad k = Some i) ?ks),
               texts := texts (axs ?fig3 ! i) @
                 map (\<lambda>k. Text (- 250) (- 130) (Repr_latex_nm k) ''w'' 16)
                   (filter (\<lambda>k. map_of ?ad k = Some i \<and> k \<noteq> 6173 \<and> k \<noteq> 1700) ?ks)\<rparr>"
      by blast
    let ?b = "blank_axes (regions ! i) :: 'a axes_obj"
    have e2: "axs fig4 ! i = ?b
              \<lparr>images := images ?b @
                 (case map_of mp ?c of None \<Rightarrow> [] | Some m \<Rightarrow> [image_of m]),
               texts := texts ?b @
                 map (\<lambda>k. Text (- 250) (- 130) (Repr_latex_nm k) ''w'' 16)
                   (if ?c \<in> set ?ks \<and> i \<noteq> 4 \<and> i \<noteq> 8 then [?c] else [])\<rparr>"
      using e1 unfolding f1 f2 sp im b .
    from fig'(5) i have e3: "axs fig' ! i = (axs fig4 ! i)
              \<lparr>texts := texts (axs fig4 ! i) @
                 (if i = 4 then [Text (- 250) (- 100) (Str ''LOS Magnetic Field'') ''w'' 16]
                  else if i = 8 then [Text (- 950) (- 990) (Repr_latex_nm 1700) ''w'' 16]
                  else []),
               patches := patches (axs fig4 ! i) @
                 (if i = 8 then [Rectangle (- 300, - 150) 600 300 ''none''] else []),
               xticks := Some [], yticks := Some []\<rparr>"
      by blast
    show ?thesis
      unfolding e3 e2 by (simp add: blank_axes_def)
  qed
  from r fig'(2,3,4) fig4(2) ax show ?thesis by simp
qed

section \<open>Complete inputs\<close>

lemma map_of_mapw:
  "map_of (mapw L aia hmi) k =
     (if k = 6173 then Some (rotate_order3 L hmi)
      else case filter (\<lambda>m. wavelength m = k) aia of
             [] \<Rightarrow> None
           | m # ms \<Rightarrow> Some (rotate_order3 L (last (m # ms))))"
  by (simp add: mapw_def Let_def update_conv' map_of_dict_of map_of_rev_last del: last.simps)

lemma valid_input_mapw:
  assumes "valid_input L aia hmi" and "k \<in> set sorted_wavelengths"
  shows "\<exists>m. map_of (mapw L aia hmi) k = Some m \<and> wavelength m = k"
proof (cases "k = 6173")
  case True
  with assms(1) show ?thesis by (simp add: map_of_mapw valid_input_def)
next
  case False
  with assms obtain m0 where m0: "m0 \<in> set aia" "wavelength m0 = k"
    unfolding valid_input_def by blast
  then have "filter (\<lambda>m. wavelength m = k) aia \<noteq> []"
    by (auto simp: filter_empty_conv)
  then obtain m ms where ms: "filter (\<lambda>m. wavelength m = k) aia = m # ms"
    by (cases "filter (\<lambda>m. wavelength m = k) aia") auto
  have "last (m # ms) \<in> set (filter (\<lambda>m. wavelength m = k) aia)"
    unfolding ms by (rule last_in_set) simp
  then have "last (m # ms) \<in> set aia" "wavelength (last (m # ms)) = k" by simp_all
  with assms(1) have "wavelength (rotate_order3 L (last (m # ms))) = k"
    unfolding valid_input_def by blast
  with False ms show ?thesis by (simp add: map_of_mapw del: last.simps)
qed

lemma maps_cropped_spec:
  assumes "\<forall>k\<in>set sorted_wavelengths. \<exists>m. map_of mw k = Some m \<and> wavelength m = k"
  shows "maps_cropped L mw =
     Inr (map (\<lambda>k. (k, if k = 1700
                        then submap L (the (map_of mw k)) (- 1000, 1000) (- 1000, 1000)
                        else submap L (the (map_of mw k)) (- 300, 300) (- 150, 150)))
            sorted_wavelengths)"
proof -
  define f where "f = (\<lambda>k. the (map_of mw k))"
  have "\<forall>k\<in>set sorted_wavelengths. map_of mw k = Some (f k) \<and> wavelength (f k) = k"
    using assms unfolding f_def by force
  then show ?thesis
    unfolding f_def [symmetric]
    by (simp add: maps_cropped_def sorted_wavelengths_def getitem_def dict_of_def
        bx_def by'_def w_def h_def)
qed

lemma example_valid: "valid_input example_lib example_aia example_hmi"
  by (simp add: valid_input_def sorted_wavelengths_def example_lib_def example_aia_def
      example_hmi_def example_map_def)

lemma example_mapw:
  "mapw example_lib example_aia example_hmi =
     map (\<lambda>(k, n). (k, (example_map k n)\<lparr>data := n + 1000\<rparr>))
       [(94, 1), (131, 2), (171, 3), (193, 4), (211, 5), (304, 6), (335, 7), (1700, 8),
        (6173, 9)]"
  by (simp add: mapw_def dict_of_def example_lib_def example_aia_def example_hmi_def
      example_map_def)

text \<open>
  C5. With a complete input the cropping stage ends without an exception, and the
  dictionary it builds has one entry per wavelength of the ordering list, in the order of
  the list. Under every wavelength but the last one the entry is \<open>mapw[k]\<close> cut to the box
  \<open>(bx, bx + w)\<close>, \<open>(by, by + h)\<close>, which is x from -300 to 300 and y from -150 to 150;
  under the last one, 1700, it is \<open>mapw[1700]\<close> cut to x and y from -1000 to 1000.
\<close>

theorem crop_boxes:
  assumes "valid_input L aia hmi"
  shows "maps_cropped L (mapw L aia hmi) =
     Inr (map (\<lambda>k. (k, if k = last sorted_wavelengths
                        then submap L (the (map_of (mapw L aia hmi) k))
                               (- 1000, 1000) (- 1000, 1000)
                        else submap L (the (map_of (mapw L aia hmi) k))
                               (bx, bx + w) (by', by' + h)))
            sorted_wavelengths) \<and>
   last sorted_wavelengths = 1700 \<and>
   (bx, bx + w) = (- 300, 300) \<and> (by', by' + h) = (- 150, 150)"
proof -
  have "\<forall>k\<in>set sorted_wavelengths.
      \<exists>m. map_of (mapw L aia hmi) k = Some m \<and> wavelength m = k"
    using assms by (simp add: valid_input_mapw)
  then have "maps_cropped L (mapw L aia hmi) =
     Inr (map (\<lambda>k. (k, if k = 1700
                        then submap L (the (map_of (mapw L aia hmi) k))
                               (- 1000, 1000) (- 1000, 1000)
                        else submap L (the (map_of (mapw L aia hmi) k))
                               (- 300, 300) (- 150, 150)))
            sorted_wavelengths)"
    by (rule maps_cropped_spec)
  moreover have "last sorted_wavelengths = 1700"
    by (simp add: sorted_wavelengths_def)
  moreover have "(bx, bx + w) = (- 300, 300)" and "(by', by' + h) = (- 150, 150)"
    by (simp_all add: bx_def by'_def w_def h_def)
  ultimately show ?thesis by simp
qed

text \<open>
  The synthetic input: eight crops to the small box, in the order of the list, and the
  wide crop of the 1700 map.
\<close>

theorem crop_boxes_witness:
  "valid_input example_lib example_aia example_hmi \<and>
   maps_cropped example_lib (mapw example_lib example_aia example_hmi) =
     Inr (map (\<lambda>(k, n). (k, (example_map k n)
                 \<lparr>data := n + 1000, xrange := [- 300, 300], yrange := [- 150, 150]\<rparr>))
            [(335, 7), (211, 5), (171, 3), (304, 6), (6173, 9), (193, 4), (131, 2), (94, 1)] @
          [(1700, (example_map 1700 8)
              \<lparr>data := 1008, xrange := [- 1000, 1000], yrange := [- 1000, 1000]\<rparr>)])"
  using crop_boxes [OF example_valid] example_valid
  unfolding example_mapw
  by (simp add: sorted_wavelengths_def example_lib_def example_map_def
      bx_def by'_def w_def h_def)

section \<open>The rendered figure\<close>

text \<open>
  C2. The rendering stage, run on a dictionary of cropped maps every key of which is a
  wavelength of the ordering list, ends without an exception, and for every key \<open>k\<close> of
  the dictionary with map \<open>m\<close> the region the script assigns to \<open>k\<close> holds exactly one
  image: the pixel data of \<open>m\<close>, drawn with the colour map and the normaliser of \<open>m\<close>
  and with the x range followed by the y range of \<open>m\<close> as its extent. A region whose
  wavelength is not a key holds no image. What a region holds is fixed by the lookups in
  the dictionary alone, so the statement does not depend on the order in which the keys
  are enumerated.
\<close>

theorem mapwplot_draws_every_key:
  fixes mp :: "(rat, 'o smap) dict"
  assumes "distinct (map fst mp)" and "fst ` set mp \<subseteq> set sorted_wavelengths"
  shows "\<exists>fig. render mp = (fig, None) \<and> length (axs fig) = 9 \<and>
           (\<forall>k m. map_of mp k = Some m \<longrightarrow>
              (\<exists>i<9. map_of (axes sorted_wavelengths
                                 (fst (make_axes (new_figure (10, 5) :: 'o figure)))) k = Some i \<and>
                     position (axs fig ! i) = regions ! i \<and>
                     images (axs fig ! i) =
                       [\<lparr>im_data = data m, im_cmap = cmap m,
                         im_norm = mpl_color_normalizer m,
                         im_extent = xrange m @ yrange m\<rparr>])) \<and>
           (\<forall>i<9. map_of mp (sorted_wavelengths ! i) = None \<longrightarrow> images (axs fig ! i) = [])"
proof -
  from render_spec [OF assms]
  obtain fig where fig: "render mp = (fig, None)" "length (axs fig) = 9"
      "\<forall>i<9. axs fig ! i =
              \<lparr>position = regions ! i,
               images = (case map_of mp (sorted_wavelengths ! i) of
                           None \<Rightarrow> [] | Some m \<Rightarrow> [image_of m]),
               texts =
                 (if sorted_wavelengths ! i \<in> fst ` set mp \<and> i \<noteq> 4 \<and> i \<noteq> 8
                  then [Text (- 250) (- 130) (Repr_latex_nm (sorted_wavelengths ! i)) ''w'' 16]
                  else []) @
                 (if i = 4 then [Text (- 250) (- 100) (Str ''LOS Magnetic Field'') ''w'' 16]
                  else if i = 8 then [Text (- 950) (- 990) (Repr_latex_nm 1700) ''w'' 16]
                  else []),
               patches = (if i = 8 then [Rectangle (- 300, - 150) 600 300 ''none''] else []),
               xticks = Some [], yticks = Some []\<rparr>"
    by blast
  have im: "images (axs fig ! i) =
      (case map_of mp (sorted_wavelengths ! i) of None \<Rightarrow> [] | Some m \<Rightarrow> [image_of m])"
    and pos: "position (axs fig ! i) = regions ! i" if "i < 9" for i
    using fig(3) that by simp_all
  have keyed: "\<exists>i<9. map_of (axes sorted_wavelengths
                                 (fst (make_axes (new_figure (10, 5) :: 'o figure)))) k = Some i \<and>
                     position (axs fig ! i) = regions ! i \<and>
                     images (axs fig ! i) =
                       [\<lparr>im_data = data m, im_cmap = cmap m,
                         im_norm = mpl_color_normalizer m,
                         im_extent = xrange m @ yrange m\<rparr>]"
    if km: "map_of mp k = Some m" for k m
  proof -
    from km have "(k, m) \<in> set mp" by (rule map_of_SomeD)
    then have "k \<in> fst ` set mp" by force
    with assms(2) have "k \<in> set sorted_wavelengths" by blast
    then obtain i where "i < length sorted_wavelengths" and ik: "sorted_wavelengths ! i = k"
      by (auto simp: in_set_conv_nth)
    then have i: "i < 9" by (simp add: sorted_wavelengths_def)
    with ik have "map_of (axes sorted_wavelengths [0..<9]) k = Some i"
      by (simp only: axes_shipped_lookup)
    then have "map_of (axes sorted_wavelengths
                         (fst (make_axes (new_figure (10, 5) :: 'o figure)))) k = Some i"
      by (simp only: make_axes_new_figure fst_conv)
    moreover from im [OF i] km ik have "images (axs fig ! i) =
        [\<lparr>im_data = data m, im_cmap = cmap m, im_norm = mpl_color_normalizer m,
          im_extent = xrange m @ yrange m\<rparr>]"
      by (simp add: image_of_def)
    ultimately show ?thesis
      using i pos [OF i] by blast
  qed
  have "\<forall>i<9. map_of mp (sorted_wavelengths ! i) = None \<longrightarrow> images (axs fig ! i) = []"
    using im by simp
  with fig(1,2) keyed show ?thesis by blast
qed

lemma example_cropped:
  "maps_cropped example_lib (mapw example_lib example_aia example_hmi) = Inr example_maps"
proof -
  have "\<forall>k\<in>set sorted_wavelengths.
      \<exists>m. map_of (mapw example_lib example_aia example_hmi) k = Some m \<and> wavelength m = k"
    using example_valid by (simp add: valid_input_mapw)
  from maps_cropped_spec [OF this, of example_lib] show ?thesis
    unfolding example_mapw
    by (simp add: example_maps_def sorted_wavelengths_def example_lib_def example_map_def)
qed

text \<open>
  The cropped maps of the synthetic input: the 171 map is drawn, once, into the third
  region from the bottom of the left edge.
\<close>

theorem mapwplot_draws_every_key_witness:
  "maps_cropped example_lib (mapw example_lib example_aia example_hmi) = Inr example_maps \<and>
   distinct (map fst example_maps) \<and> fst ` set example_maps \<subseteq> set sorted_wavelengths \<and>
   map_of example_maps 171 =
     Some \<lparr>wavelength = 171, data = 1003, cmap = 103, mpl_color_normalizer = 203,
           xrange = [- 300, 300], yrange = [- 150, 150]\<rparr> \<and>
   map_of (axes sorted_wavelengths (fst (make_axes (new_figure (10, 5) :: nat figure)))) 171 =
     Some 2 \<and>
   (\<exists>fig. render example_maps = (fig, None) \<and>
      position (axs fig ! 2) = (0, 1 / 2, 1 / 4, 1 / 4) \<and>
      images (axs fig ! 2) =
        [\<lparr>im_data = 1003, im_cmap = 103, im_norm = 203,
          im_extent = [- 300, 300, - 150, 150]\<rparr>])"
proof -
  have d: "distinct (map fst example_maps)"
    by (simp add: example_maps_def)
  have s: "fst ` set example_maps \<subseteq> set sorted_wavelengths"
    by (simp add: example_maps_def sorted_wavelengths_def)
  have m: "map_of example_maps 171 =
     Some \<lparr>wavelength = 171, data = 1003, cmap = 103, mpl_color_normalizer = 203,
           xrange = [- 300, 300], yrange = [- 150, 150]\<rparr>"
    by (simp add: example_maps_def example_map_def)
  have a: "map_of (axes sorted_wavelengths
                     (fst (make_axes (new_figure (10, 5) :: nat figure)))) 171 = Some 2"
    by (simp add: make_axes_new_figure axes_shipped_explicit)
  from mapwplot_draws_every_key [OF d s]
  obtain fig where fig: "render example_maps = (fig, None)"
    and drawn: "\<And>k m. map_of example_maps k = Some m \<Longrightarrow>
              (\<exists>i<9. map_of (axes sorted_wavelengths
                                 (fst (make_axes (new_figure (10, 5) :: nat figure)))) k = Some i \<and>
                     position (axs fig ! i) = regions ! i \<and>
                     images (axs fig ! i) =
                       [\<lparr>im_data = data m, im_cmap = cmap m,
                         im_norm = mpl_color_normalizer m,
                         im_extent = xrange m @ yrange m\<rparr>])"
    by blast
  from drawn [OF m] a
  have "position (axs fig ! 2) = regions ! 2 \<and>
      images (axs fig ! 2) =
        [\<lparr>im_data = 1003, im_cmap = 103, im_norm = 203,
          im_extent = [- 300, 300, - 150, 150]\<rparr>]"
    by auto
  then have "position (axs fig ! 2) = (0, 1 / 2, 1 / 4, 1 / 4) \<and>
      images (axs fig ! 2) =
        [\<lparr>im_data = 1003, im_cmap = 103, im_norm = 203,
          im_extent = [- 300, 300, - 150, 150]\<rparr>]"
    by (simp add: regions_explicit)
  with fig d s m a example_cropped show ?thesis by blast
qed

lemma map_of_map_key:
  "map_of (map (\<lambda>k. (k, g k)) xs) k = (if k \<in> set xs then Some (g k) else None)"
  by (induction xs) auto

lemma script_spec:
  assumes "valid_input L aia hmi"
  shows "\<exists>fig. script L aia hmi = (Some fig, None) \<and> figsize fig = (10, 5) \<and> shown fig \<and>
           length (axs fig) = 9 \<and>
           (\<forall>i<9. axs fig ! i =
              \<lparr>position = regions ! i,
               images =
                 [image_of
                    (if i = 8
                     then submap L (the (map_of (mapw L aia hmi) 1700))
                            (- 1000, 1000) (- 1000, 1000)
                     else submap L (the (map_of (mapw L aia hmi) (sorted_wavelengths ! i)))
                            (- 300, 300) (- 150, 150))],
               texts =
                 [if i = 4 then Text (- 250) (- 100) (Str ''LOS Magnetic Field'') ''w'' 16
                  else if i = 8 then Text (- 950) (- 990) (Repr_latex_nm 1700) ''w'' 16
                  else Text (- 250) (- 130) (Repr_latex_nm (sorted_wavelengths ! i)) ''w'' 16],
               patches = (if i = 8 then [Rectangle (- 300, - 150) 600 300 ''none''] else []),
               xticks = Some [], yticks = Some []\<rparr>)"
proof -
  let ?mw = "mapw L aia hmi"
  let ?g = "\<lambda>k. if k = 1700
                then submap L (the (map_of ?mw k)) (- 1000, 1000) (- 1000, 1000)
                else submap L (the (map_of ?mw k)) (- 300, 300) (- 150, 150)"
  let ?mp = "map (\<lambda>k. (k, ?g k)) sorted_wavelengths"
  have "\<forall>k\<in>set sorted_wavelengths. \<exists>m. map_of ?mw k = Some m \<and> wavelength m = k"
    using assms by (simp add: valid_input_mapw)
  then have crop: "maps_cropped L ?mw = Inr ?mp"
    by (rule maps_cropped_spec)
  have keys: "map fst ?mp = sorted_wavelengths"
    by (simp add: comp_def)
  have "distinct sorted_wavelengths"
    by (simp add: sorted_wavelengths_def)
  with keys have d: "distinct (map fst ?mp)"
    by simp
  have s: "fst ` set ?mp \<subseteq> set sorted_wavelengths"
    by auto
  from render_spec [OF d s]
  obtain fig where fig: "render ?mp = (fig, None)" "figsize fig = (10, 5)" "shown fig"
      "length (axs fig) = 9"
      "\<forall>i<9. axs fig ! i =
              \<lparr>position = regions ! i,
               images = (case map_of ?mp (sorted_wavelengths ! i) of
                           None \<Rightarrow> [] | Some m \<Rightarrow> [image_of m]),
               texts =
                 (if sorted_wavelengths ! i \<in> fst ` set ?mp \<and> i \<noteq> 4 \<and> i \<noteq> 8
                  then [Text (- 250) (- 130) (Repr_latex_nm (sorted_wavelengths ! i)) ''w'' 16]
                  else []) @
                 (if i = 4 then [Text (- 250) (- 100) (Str ''LOS Magnetic Field'') ''w'' 16]
                  else if i = 8 then [Text (- 950) (- 990) (Repr_latex_nm 1700) ''w'' 16]
                  else []),
               patches = (if i = 8 then [Rectangle (- 300, - 150) 600 300 ''none''] else []),
               xticks = Some [], yticks = Some []\<rparr>"
    by blast
  have sc: "script L aia hmi = (Some fig, None)"
    by (simp add: script_def crop fig(1))
  have ax: "axs fig ! i =
              \<lparr>position = regions ! i,
               images =
                 [image_of
                    (if i = 8
                     then submap L (the (map_of ?mw 1700)) (- 1000, 1000) (- 1000, 1000)
                     else submap L (the (map_of ?mw (sorted_wavelengths ! i)))
                            (- 300, 300) (- 150, 150))],
               texts =
                 [if i = 4 then Text (- 250) (- 100) (Str ''LOS Magnetic Field'') ''w'' 16
                  else if i = 8 then Text (- 950) (- 990) (Repr_latex_nm 1700) ''w'' 16
                  else Text (- 250) (- 130) (Repr_latex_nm (sorted_wavelengths ! i)) ''w'' 16],
               patches = (if i = 8 then [Rectangle (- 300, - 150) 600 300 ''none''] else []),
               xticks = Some [], yticks = Some []\<rparr>" if i: "i < 9" for i
  proof -
    let ?c = "sorted_wavelengths ! i"
    have mem: "?c \<in> set sorted_wavelengths"
      using i by (intro nth_mem) (simp add: sorted_wavelengths_def)
    have m: "map_of ?mp ?c = Some (?g ?c)"
      using mem by (simp only: map_of_map_key if_True)
    have mem': "?c \<in> fst ` set ?mp"
      using mem by (simp only: set_map [symmetric] keys)
    have sp: "(?c = 1700) = (i = 8)"
      using i unfolding sorted_wavelengths_def
      by (rule_tac all_less_9 [THEN iffD2, rule_format, of _ i]) simp_all
    from fig(5) i have "axs fig ! i =
              \<lparr>position = regions ! i,
               images = (case map_of ?mp ?c of
                           None \<Rightarrow> [] | Some m \<Rightarrow> [image_of m]),
               texts =
                 (if ?c \<in> fst ` set ?mp \<and> i \<noteq> 4 \<and> i \<noteq> 8
                  then [Text (- 250) (- 130) (Repr_latex_nm ?c) ''w'' 16]
                  else []) @
                 (if i = 4 then [Text (- 250) (- 100) (Str ''LOS Magnetic Field'') ''w'' 16]
                  else if i = 8 then [Text (- 950) (- 990) (Repr_latex_nm 1700) ''w'' 16]
                  else []),
               patches = (if i = 8 then [Rectangle (- 300, - 150) 600 300 ''none''] else []),
               xticks = Some [], yticks = Some []\<rparr>"
      by blast
    moreover have "sorted_wavelengths ! 8 = 1700"
      by (simp add: sorted_wavelengths_def)
    ultimately show ?thesis
      unfolding m using mem' sp by simp
  qed
  from sc fig(2,3,4) ax show ?thesis by simp
qed

lemma script_spec_fields:
  assumes "valid_input L aia hmi"
  shows "\<exists>fig. script L aia hmi = (Some fig, None) \<and> length (axs fig) = 9 \<and>
    (\<forall>i<9. position (axs fig ! i) = regions ! i) \<and>
    (\<forall>i<9. images (axs fig ! i) =
                 [image_of
                    (if i = 8
                     then submap L (the (map_of (mapw L aia hmi) 1700))
                            (- 1000, 1000) (- 1000, 1000)
                     else submap L (the (map_of (mapw L aia hmi) (sorted_wavelengths ! i)))
                            (- 300, 300) (- 150, 150))]) \<and>
    (\<forall>i<9. texts (axs fig ! i) =
                 [if i = 4 then Text (- 250) (- 100) (Str ''LOS Magnetic Field'') ''w'' 16
                  else if i = 8 then Text (- 950) (- 990) (Repr_latex_nm 1700) ''w'' 16
                  else Text (- 250) (- 130) (Repr_latex_nm (sorted_wavelengths ! i)) ''w'' 16]) \<and>
    (\<forall>i<9. patches (axs fig ! i) =
                 (if i = 8 then [Rectangle (- 300, - 150) 600 300 ''none''] else []))"
proof -
  from script_spec [OF assms]
  obtain fig where fig: "script L aia hmi = (Some fig, None)" "length (axs fig) = 9"
     "\<forall>i<9. axs fig ! i =
              \<lparr>position = regions ! i,
               images =
                 [image_of
                    (if i = 8
                     then submap L (the (map_of (mapw L aia hmi) 1700))
                            (- 1000, 1000) (- 1000, 1000)
                     else submap L (the (map_of (mapw L aia hmi) (sorted_wavelengths ! i)))
                            (- 300, 300) (- 150, 150))],
               texts =
                 [if i = 4 then Text (- 250) (- 100) (Str ''LOS Magnetic Field'') ''w'' 16
                  else if i = 8 then Text (- 950) (- 990) (Repr_latex_nm 1700) ''w'' 16
                  else Text (- 250) (- 130) (Repr_latex_nm (sorted_wavelengths ! i)) ''w'' 16],
               patches = (if i = 8 then [Rectangle (- 300, - 150) 600 300 ''none''] else []),
               xticks = Some [], yticks = Some []\<rparr>"
    by blast
  from fig(3) have "\<forall>i<9. position (axs fig ! i) = regions ! i"
    by simp
  moreover from fig(3) have "\<forall>i<9. images (axs fig ! i) =
                 [image_of
                    (if i = 8
                     then submap L (the (map_of (mapw L aia hmi) 1700))
                            (- 1000, 1000) (- 1000, 1000)
                     else submap L (the (map_of (mapw L aia hmi) (sorted_wavelengths ! i)))
                            (- 300, 300) (- 150, 150))]"
    by simp
  moreover from fig(3) have "\<forall>i<9. texts (axs fig ! i) =
                 [if i = 4 then Text (- 250) (- 100) (Str ''LOS Magnetic Field'') ''w'' 16
                  else if i = 8 then Text (- 950) (- 990) (Repr_latex_nm 1700) ''w'' 16
                  else Text (- 250) (- 130) (Repr_latex_nm (sorted_wavelengths ! i)) ''w'' 16]"
    by simp
  moreover from fig(3) have "\<forall>i<9. patches (axs fig ! i) =
                 (if i = 8 then [Rectangle (- 300, - 150) 600 300 ''none''] else [])"
    by simp
  ultimately show ?thesis
    using fig(1,2) by blast
qed

lemma sorted_wavelengths_special:
  assumes "i < 9"
  shows "(sorted_wavelengths ! i = 6173) = (i = 4)"
    and "(sorted_wavelengths ! i = last sorted_wavelengths) = (i = 8)"
  using assms unfolding sorted_wavelengths_def
  by (rule_tac [!] all_less_9 [THEN iffD2, rule_format, of _ i]) simp_all

lemma axes_of_wavelength:
  assumes "i < 9"
  shows "map_of (axes sorted_wavelengths [0..<9]) (sorted_wavelengths ! i) = Some i"
  using assms by (simp only: axes_shipped_lookup)

text \<open>
  C6. With a complete input the script ends without an exception and every region holds
  exactly one text. The region of a wavelength other than 6173 and the last entry of the
  ordering list holds the generic label of that wavelength at
  \<open>(bx + label_padx, by + label_pady)\<close>; the region of 6173 holds the text
  \<open>LOS Magnetic Field\<close> (line 102 places it at \<open>(bx + label_padx, by + label_padx)\<close>), and
  the region of the last entry, 1700, holds the label of 1700 at \<open>(-950, -990)\<close>; neither
  of the two holds a generic label.
\<close>

theorem generic_and_custom_labels:
  assumes "valid_input L aia hmi"
  shows "\<exists>fig. script L aia hmi = (Some fig, None) \<and> length (axs fig) = 9 \<and>
     (\<forall>i<9. map_of (axes sorted_wavelengths [0..<9]) (sorted_wavelengths ! i) = Some i \<and>
        texts (axs fig ! i) =
          [if sorted_wavelengths ! i = 6173
           then Text (bx + label_padx) (by' + label_padx) (Str ''LOS Magnetic Field'') ''w'' 16
           else if sorted_wavelengths ! i = last sorted_wavelengths
           then Text (- 950) (- 990) (Repr_latex_nm 1700) ''w'' 16
           else Text (bx + label_padx) (by' + label_pady)
                  (Repr_latex_nm (sorted_wavelengths ! i)) ''w'' 16])"
proof -
  from script_spec_fields [OF assms]
  obtain fig where fig: "script L aia hmi = (Some fig, None)"
      "length (axs fig) = 9"
    and t: "\<And>i. i < 9 \<Longrightarrow> texts (axs fig ! i) =
                 [if i = 4 then Text (- 250) (- 100) (Str ''LOS Magnetic Field'') ''w'' 16
                  else if i = 8 then Text (- 950) (- 990) (Repr_latex_nm 1700) ''w'' 16
                  else Text (- 250) (- 130) (Repr_latex_nm (sorted_wavelengths ! i)) ''w'' 16]"
    by blast
  have "map_of (axes sorted_wavelengths [0..<9]) (sorted_wavelengths ! i) = Some i \<and>
        texts (axs fig ! i) =
          [if sorted_wavelengths ! i = 6173
           then Text (bx + label_padx) (by' + label_padx) (Str ''LOS Magnetic Field'') ''w'' 16
           else if sorted_wavelengths ! i = last sorted_wavelengths
           then Text (- 950) (- 990) (Repr_latex_nm 1700) ''w'' 16
           else Text (bx + label_padx) (by' + label_pady)
                  (Repr_latex_nm (sorted_wavelengths ! i)) ''w'' 16]" if i: "i < 9" for i
    unfolding sorted_wavelengths_special [OF i] t [OF i] axes_of_wavelength [OF i]
    by (simp add: bx_def by'_def label_padx_def label_pady_def)
  with fig show ?thesis by blast
qed

text \<open>
  The synthetic input: the labels of the regions of 171, of 6173 and of 1700.
\<close>

theorem generic_and_custom_labels_witness:
  "valid_input example_lib example_aia example_hmi \<and>
   (\<exists>fig. script example_lib example_aia example_hmi = (Some fig, None) \<and>
      texts (axs fig ! 2) = [Text (- 250) (- 130) (Repr_latex_nm 171) ''w'' 16] \<and>
      texts (axs fig ! 4) = [Text (- 250) (- 100) (Str ''LOS Magnetic Field'') ''w'' 16] \<and>
      texts (axs fig ! 8) = [Text (- 950) (- 990) (Repr_latex_nm 1700) ''w'' 16])"
proof -
  from generic_and_custom_labels [OF example_valid]
  obtain fig where fig: "script example_lib example_aia example_hmi = (Some fig, None)"
    and t: "\<And>i. i < 9 \<Longrightarrow> texts (axs fig ! i) =
          [if sorted_wavelengths ! i = 6173
           then Text (bx + label_padx) (by' + label_padx) (Str ''LOS Magnetic Field'') ''w'' 16
           else if sorted_wavelengths ! i = last sorted_wavelengths
           then Text (- 950) (- 990) (Repr_latex_nm 1700) ''w'' 16
           else Text (bx + label_padx) (by' + label_pady)
                  (Repr_latex_nm (sorted_wavelengths ! i)) ''w'' 16]"
    by blast
  have "texts (axs fig ! 2) = [Text (- 250) (- 130) (Repr_latex_nm 171) ''w'' 16]"
    using t [of 2]
    by (simp add: sorted_wavelengths_def bx_def by'_def label_padx_def label_pady_def)
  moreover have "texts (axs fig ! 4) =
      [Text (- 250) (- 100) (Str ''LOS Magnetic Field'') ''w'' 16]"
    using t [of 4]
    by (simp add: sorted_wavelengths_def bx_def by'_def label_padx_def label_pady_def)
  moreover have "texts (axs fig ! 8) = [Text (- 950) (- 990) (Repr_latex_nm 1700) ''w'' 16]"
    using t [of 8]
    by (simp add: sorted_wavelengths_def bx_def by'_def label_padx_def label_pady_def)
  ultimately show ?thesis
    using fig example_valid by blast
qed



text \<open>
  C1, as the script has it. With a complete input the script ends without an exception
  and the figure has nine regions, at the nine distinct rectangles, each with one image.
  The centre region is the one created last; it is assigned to the last wavelength of the
  ordering list and holds the wide crop of the 1700 map. The other eight images lie on
  the left and right edges, cut to the small box. The HMI image is one of them: 6173 is
  the fifth entry of the ordering list, so the rotated HMI map, cut to the small box, is
  in the fifth region, the bottom one of the right edge.
\<close>

theorem centre_holds_main_disk:
  assumes "valid_input L aia hmi"
  shows "\<exists>fig. script L aia hmi = (Some fig, None) \<and> length (axs fig) = 9 \<and>
     map position (axs fig) = regions \<and> distinct regions \<and>
     centre_rects = [regions ! 8] \<and>
     images (axs fig ! 8) =
       [image_of (submap L (the (map_of (mapw L aia hmi) 1700))
                    (- 1000, 1000) (- 1000, 1000))] \<and>
     (\<forall>i<8. regions ! i \<in> set (left_rects @ right_rects) \<and>
            images (axs fig ! i) =
              [image_of (submap L (the (map_of (mapw L aia hmi) (sorted_wavelengths ! i)))
                           (- 300, 300) (- 150, 150))]) \<and>
     sorted_wavelengths ! 4 = 6173 \<and> regions ! 4 = (3 / 4, 0, 1 / 4, 1 / 4) \<and>
     images (axs fig ! 4) =
       [image_of (submap L (rotate_order3 L hmi) (- 300, 300) (- 150, 150))]"
proof -
  from script_spec_fields [OF assms]
  obtain fig where fig: "script L aia hmi = (Some fig, None)" "length (axs fig) = 9"
    and pos: "\<forall>i<9. position (axs fig ! i) = regions ! i"
    and im: "\<forall>i<9. images (axs fig ! i) =
                 [image_of
                    (if i = 8
                     then submap L (the (map_of (mapw L aia hmi) 1700))
                            (- 1000, 1000) (- 1000, 1000)
                     else submap L (the (map_of (mapw L aia hmi) (sorted_wavelengths ! i)))
                            (- 300, 300) (- 150, 150))]"
    by blast
  have lenr: "length regions = 9"
    by (simp add: regions_explicit)
  have "map position (axs fig) = regions"
    using fig(2) lenr pos by (intro nth_equalityI) simp_all
  moreover have "distinct regions"
    by (simp add: regions_explicit)
  moreover have "centre_rects = [regions ! 8]"
    by (simp add: regions_explicit centre_rects_def edge_width_def)
  moreover from im have "images (axs fig ! 8) =
       [image_of (submap L (the (map_of (mapw L aia hmi) 1700))
                    (- 1000, 1000) (- 1000, 1000))]"
    by simp
  moreover have "\<forall>i<8. regions ! i \<in> set (left_rects @ right_rects) \<and>
            images (axs fig ! i) =
              [image_of (submap L (the (map_of (mapw L aia hmi) (sorted_wavelengths ! i)))
                           (- 300, 300) (- 150, 150))]"
  proof (intro allI impI conjI)
    fix i :: nat assume i: "i < 8"
    have "left_rects @ right_rects = take 8 regions"
      by (simp add: regions_def left_rects_def right_rects_def)
    with i lenr show "regions ! i \<in> set (left_rects @ right_rects)"
      by (simp add: in_set_conv_nth) (metis nth_take)
    from im i show "images (axs fig ! i) =
              [image_of (submap L (the (map_of (mapw L aia hmi) (sorted_wavelengths ! i)))
                           (- 300, 300) (- 150, 150))]"
      by simp
  qed
  moreover have s4: "sorted_wavelengths ! 4 = 6173"
    by (simp add: sorted_wavelengths_def)
  moreover have "regions ! 4 = (3 / 4, 0, 1 / 4, 1 / 4)"
    by (simp add: regions_explicit)
  moreover have "images (axs fig ! 4) =
       [image_of (submap L (rotate_order3 L hmi) (- 300, 300) (- 150, 150))]"
    using im s4 by (simp add: map_of_mapw)
  ultimately show ?thesis
    using fig by blast
qed

text \<open>
  The synthetic input: nine regions, the 1700 content (1008 after rotation) in the centre
  and the HMI content (1009 after rotation) in the bottom right region.
\<close>

theorem centre_holds_main_disk_witness:
  "valid_input example_lib example_aia example_hmi \<and>
   (\<exists>fig. script example_lib example_aia example_hmi = (Some fig, None) \<and>
      length (axs fig) = 9 \<and>
      map position (axs fig) =
        [(0, 0, 1/4, 1/4), (0, 1/4, 1/4, 1/4), (0, 1/2, 1/4, 1/4), (0, 3/4, 1/4, 1/4),
         (3/4, 0, 1/4, 1/4), (3/4, 1/4, 1/4, 1/4), (3/4, 1/2, 1/4, 1/4),
         (3/4, 3/4, 1/4, 1/4), (1/4, 0, 1/2, 1)] \<and>
      images (axs fig ! 8) =
        [\<lparr>im_data = 1008, im_cmap = 108, im_norm = 208,
          im_extent = [- 1000, 1000, - 1000, 1000]\<rparr>] \<and>
      images (axs fig ! 4) =
        [\<lparr>im_data = 1009, im_cmap = 109, im_norm = 209,
          im_extent = [- 300, 300, - 150, 150]\<rparr>])"
proof -
  from centre_holds_main_disk [OF example_valid]
  obtain fig where fig: "script example_lib example_aia example_hmi = (Some fig, None)"
      "length (axs fig) = 9" "map position (axs fig) = regions"
    and im8: "images (axs fig ! 8) =
       [image_of (submap example_lib
                    (the (map_of (mapw example_lib example_aia example_hmi) 1700))
                    (- 1000, 1000) (- 1000, 1000))]"
    and im4: "images (axs fig ! 4) =
       [image_of (submap example_lib (rotate_order3 example_lib example_hmi)
                    (- 300, 300) (- 150, 150))]"
    by blast
  from im8 have e8: "images (axs fig ! 8) =
        [\<lparr>im_data = 1008, im_cmap = 108, im_norm = 208,
          im_extent = [- 1000, 1000, - 1000, 1000]\<rparr>]"
    unfolding example_mapw
    by (simp add: image_of_def example_lib_def example_map_def)
  from im4 have e4: "images (axs fig ! 4) =
        [\<lparr>im_data = 1009, im_cmap = 109, im_norm = 209,
          im_extent = [- 300, 300, - 150, 150]\<rparr>]"
    by (simp add: image_of_def example_lib_def example_hmi_def example_map_def)
  show ?thesis
  proof (intro conjI exI [of _ fig])
    show "valid_input example_lib example_aia example_hmi" by (rule example_valid)
    show "script example_lib example_aia example_hmi = (Some fig, None)" by (rule fig(1))
    show "length (axs fig) = 9" by (rule fig(2))
    show "map position (axs fig) =
        [(0, 0, 1/4, 1/4), (0, 1/4, 1/4, 1/4), (0, 1/2, 1/4, 1/4), (0, 3/4, 1/4, 1/4),
         (3/4, 0, 1/4, 1/4), (3/4, 1/4, 1/4, 1/4), (3/4, 1/2, 1/4, 1/4),
         (3/4, 3/4, 1/4, 1/4), (1/4, 0, 1/2, 1)]"
      using fig(3) by (simp only: regions_explicit)
    show "images (axs fig ! 8) =
        [\<lparr>im_data = 1008, im_cmap = 108, im_norm = 208,
          im_extent = [- 1000, 1000, - 1000, 1000]\<rparr>]" by (rule e8)
    show "images (axs fig ! 4) =
        [\<lparr>im_data = 1009, im_cmap = 109, im_norm = 209,
          im_extent = [- 300, 300, - 150, 150]\<rparr>]" by (rule e4)
  qed
qed

text \<open>
  On the synthetic input, with all nine files present, the centre region
  \<open>(1/4, 0, 1/2, 1)\<close> shows the content of the 1700 file and not the HMI content, which
  is shown in the region \<open>(3/4, 0, 1/4, 1/4)\<close>.
\<close>

theorem centre_is_not_hmi:
  "valid_input example_lib example_aia example_hmi \<and>
   data (rotate_order3 example_lib example_hmi) = 1009 \<and>
   data (rotate_order3 example_lib (example_aia ! 7)) = 1008 \<and>
   wavelength (example_aia ! 7) = 1700 \<and>
   centre_rects = [(1/4, 0, 1/2, 1)] \<and>
   snd (script example_lib example_aia example_hmi) = None \<and>
   position (axs (the (fst (script example_lib example_aia example_hmi))) ! 8) =
     (1/4, 0, 1/2, 1) \<and>
   map im_data (images (axs (the (fst (script example_lib example_aia example_hmi))) ! 8)) =
     [1008] \<and>
   position (axs (the (fst (script example_lib example_aia example_hmi))) ! 4) =
     (3/4, 0, 1/4, 1/4) \<and>
   map im_data (images (axs (the (fst (script example_lib example_aia example_hmi))) ! 4)) =
     [1009] \<and>
   1009 \<notin> set (map im_data
     (images (axs (the (fst (script example_lib example_aia example_hmi))) ! 8)))"
proof -
  from script_spec_fields [OF example_valid]
  obtain fig where fig: "script example_lib example_aia example_hmi = (Some fig, None)"
    and pos: "\<forall>i<9. position (axs fig ! i) = regions ! i"
    and im: "\<forall>i<9. images (axs fig ! i) =
                 [image_of
                    (if i = 8
                     then submap example_lib
                            (the (map_of (mapw example_lib example_aia example_hmi) 1700))
                            (- 1000, 1000) (- 1000, 1000)
                     else submap example_lib
                            (the (map_of (mapw example_lib example_aia example_hmi)
                                    (sorted_wavelengths ! i)))
                            (- 300, 300) (- 150, 150))]"
    by blast
  have p8: "position (axs fig ! 8) = (1/4, 0, 1/2, 1)"
    and p4: "position (axs fig ! 4) = (3/4, 0, 1/4, 1/4)"
    using pos by (simp_all add: regions_explicit)
  have i8: "map im_data (images (axs fig ! 8)) = [1008]"
    using im unfolding example_mapw
    by (simp add: image_of_def example_lib_def example_map_def)
  have i4: "map im_data (images (axs fig ! 4)) = [1009]"
    using im unfolding example_mapw
    by (simp add: image_of_def example_lib_def example_map_def sorted_wavelengths_def)
  have only: "1009 \<notin> set (map im_data (images (axs fig ! 8)))"
    unfolding i8 by simp
  have d1: "data (rotate_order3 example_lib example_hmi) = 1009"
    and d2: "data (rotate_order3 example_lib (example_aia ! 7)) = 1008"
    and d3: "wavelength (example_aia ! 7) = 1700"
    by (simp_all add: example_lib_def example_hmi_def example_aia_def example_map_def)
  have c: "centre_rects = [(1/4, 0, 1/2, 1)]"
    by (simp add: centre_rects_def edge_width_def)
  have f: "the (fst (script example_lib example_aia example_hmi)) = fig"
    and n: "snd (script example_lib example_aia example_hmi) = None"
    by (simp_all add: fig)
  show ?thesis
    unfolding f
  proof (intro conjI)
    show "valid_input example_lib example_aia example_hmi" by (rule example_valid)
    show "data (rotate_order3 example_lib example_hmi) = 1009" by (rule d1)
    show "data (rotate_order3 example_lib (example_aia ! 7)) = 1008" by (rule d2)
    show "wavelength (example_aia ! 7) = 1700" by (rule d3)
    show "centre_rects = [(1/4, 0, 1/2, 1)]" by (rule c)
    show "snd (script example_lib example_aia example_hmi) = None" by (rule n)
    show "position (axs fig ! 8) = (1/4, 0, 1/2, 1)" by (rule p8)
    show "map im_data (images (axs fig ! 8)) = [1008]" by (rule i8)
    show "position (axs fig ! 4) = (3/4, 0, 1/4, 1/4)" by (rule p4)
    show "map im_data (images (axs fig ! 4)) = [1009]" by (rule i4)
    show "1009 \<notin> set (map im_data (images (axs fig ! 8)))" by (rule only)
  qed
qed

end
